theory Spec2Isabelle
  imports Main
begin

section \<open>Library values the handlers work with\<close>

text \<open>
  The program is one Go file, \<^verbatim>\<open>main.go\<close>: a router and six HTTP handlers over a
  storage package (\<^verbatim>\<open>data\<close>), a remote search client (\<^verbatim>\<open>giantbomb\<close>) and the Go standard
  library. The handlers are embedded as functions from the request and the environment
  (clock, storage, search provider, date parser, template engine) to an outcome: the one
  response the handler produces, or the runtime panic it dies with, together with the
  list of calls it made to storage and to the search provider, in order. Writes to the
  log (\<^verbatim>\<open>log.Println\<close>) are not part of the outcome.
\<close>

text \<open>A non-nil Go \<^verbatim>\<open>error\<close>.\<close>

datatype error = Error string

text \<open>
  \<^verbatim>\<open>url.Values\<close> is \<^verbatim>\<open>map[string][]string\<close>. Indexing a Go map at a missing key gives the
  zero value, here the nil slice.
\<close>

type_synonym Values = "string \<rightharpoonup> string list"

definition lookup :: "Values \<Rightarrow> string \<Rightarrow> string list" where
  "lookup vals key = (case vals key of None \<Rightarrow> [] | Some vs \<Rightarrow> vs)"

text \<open>
  \<^verbatim>\<open>vs[i]\<close> on a slice: \<open>None\<close> stands for the runtime panic \<^verbatim>\<open>index out of range\<close>.
\<close>

definition index :: "string list \<Rightarrow> nat \<Rightarrow> string option" where
  "index vs i = (if i < length vs then Some (vs ! i) else None)"

text \<open>
  \<^verbatim>\<open>Values.Get\<close>: the first value of the key, the empty string when there is none.
\<close>

definition Get :: "Values \<Rightarrow> string \<Rightarrow> string" where
  "Get vals key = (let vs = lookup vals key in if length vs = 0 then [] else vs ! 0)"

text \<open>
  \<^verbatim>\<open>time.Time\<close>, read as its calendar fields. The zero value of the type is
  January 1 of year 1, 00:00:00.
\<close>

record time =
  year :: int
  month :: nat
  day :: nat
  hour :: nat
  minute :: nat
  second :: nat
  nanosecond :: nat

definition zero_time :: time where
  "zero_time = \<lparr>year = 1, month = 1, day = 1, hour = 0, minute = 0, second = 0, nanosecond = 0\<rparr>"

text \<open>\<^verbatim>\<open>sql.NullString\<close> and \<^verbatim>\<open>data.NullTime\<close>: a value and its presence flag.\<close>

record NullString =
  String :: string
  Valid :: bool

record NullTime =
  Time :: time
  Valid :: bool

text \<open>
  Modelled from the spec: the struct \<^verbatim>\<open>data.Game\<close> is declared in the storage package, which
  is not part of \<^verbatim>\<open>main.go\<close>. The spec gives it an integer id assigned by storage, a name, an
  optional note and an optional beaten-on date; the handlers set the last three.
\<close>

record Game =
  ID :: int
  Name :: string
  Note :: NullString
  BeatenOn :: NullTime

text \<open>\<^verbatim>\<open>var game data.Game\<close>: every field at its zero value.\<close>

definition zero_Game :: Game where
  "zero_Game = \<lparr>ID = 0, Name = [],
     Note = \<lparr>String = [], NullString.Valid = False\<rparr>,
     BeatenOn = \<lparr>Time = zero_time, NullTime.Valid = False\<rparr>\<rparr>"

text \<open>The search provider's results: id, name and platform names of each game.\<close>

type_synonym results = "(int \<times> string \<times> string list) list"

subsection \<open>HTTP status codes\<close>

definition StatusOK :: nat where
  "StatusOK = 200"

definition StatusTemporaryRedirect :: nat where
  "StatusTemporaryRedirect = 307"

definition StatusBadRequest :: nat where
  "StatusBadRequest = 400"

definition StatusInternalServerError :: nat where
  "StatusInternalServerError = 500"

section \<open>Requests, the environment and outcomes\<close>

text \<open>
  Of a request the handlers read the method, the parsed URL query (\<^verbatim>\<open>r.URL.Query()\<close>) and
  the result of \<^verbatim>\<open>r.ParseForm()\<close>: the error it returns, or the form it leaves in \<^verbatim>\<open>r.Form\<close>.
\<close>

record request =
  Method :: string
  URL_Query :: Values
  ParseForm :: "error + Values"

text \<open>
  What a handler calls outside \<^verbatim>\<open>main.go\<close>. A search is recorded with the value of the
  package variable \<^verbatim>\<open>giantbomb.FieldList\<close> at the time of the call. Executing a template
  writes to the response as it goes: \<open>template_ExecuteTemplate\<close> gives the writes it made,
  in order, and the error it stopped with, if any.
\<close>

datatype call =
    AddGame Game
  | DeleteGame string
  | Search "string list" string int int "string list"

record env =
  time_Now :: time
  time_Parse :: "string \<Rightarrow> string \<Rightarrow> error + time"
  data_AddGame :: "Game \<Rightarrow> error option"
  data_DeleteGame :: "string \<Rightarrow> int \<times> error option"
  giantbomb_ResourceTypeGame :: string
  giantbomb_Search :: "string list \<Rightarrow> string \<Rightarrow> int \<Rightarrow> int \<Rightarrow> string list \<Rightarrow> error + results"
  json_Marshal :: "results \<Rightarrow> error + string"
  template_ParseFiles :: "string list \<Rightarrow> error option"
  template_ExecuteTemplate :: "string list \<Rightarrow> string \<Rightarrow> string list \<times> error option"

text \<open>
  The response of a handler. The first write to a \<^verbatim>\<open>ResponseWriter\<close> sends the header
  with status 200; an \<^verbatim>\<open>http.Error\<close> after that cannot change the status any more and
  only appends its message to the body (\<open>Rendered_then_http_Error\<close>).
\<close>

datatype response =
    http_Error string nat
  | http_Redirect string nat
  | WriteHeader nat
  | Rendered "string list"
  | Rendered_then_http_Error "string list" string nat
  | Write_JSON string
  | Panic

record outcome =
  response :: response
  calls :: "call list"

text \<open>The status code of a response; a panic sends none.\<close>

fun status_code :: "response \<Rightarrow> nat option" where
  "status_code (http_Error msg code) = Some code"
| "status_code (http_Redirect url code) = Some code"
| "status_code (WriteHeader code) = Some code"
| "status_code (Rendered written) = Some StatusOK"
| "status_code (Rendered_then_http_Error written msg code) = Some StatusOK"
| "status_code (Write_JSON b) = Some StatusOK"
| "status_code Panic = None"

section \<open>The handlers\<close>

text \<open>
  \<^verbatim>\<open>executeTemplates\<close> returns the error; the writes it made to the response on the way
  are returned next to it.
\<close>

definition executeTemplates :: "env \<Rightarrow> string list \<Rightarrow> string list \<times> error option" where
  "executeTemplates e filenames =
     (let filenames = filenames @ [''templates/base.html''] in
      case template_ParseFiles e filenames of
        Some err \<Rightarrow> ([], Some err)
      | None \<Rightarrow> template_ExecuteTemplate e filenames ''base'')"

definition addHandler :: "env \<Rightarrow> request \<Rightarrow> outcome" where
  "addHandler e r =
     (if Method r = ''GET'' then
        (case executeTemplates e [''templates/add.html''] of
           (written, Some err) \<Rightarrow>
             if written = [] then
               \<lparr>response = http_Error ''Failed to execute template.'' StatusInternalServerError,
                calls = []\<rparr>
             else
               \<lparr>response = Rendered_then_http_Error written
                  ''Failed to execute template.'' StatusInternalServerError,
                calls = []\<rparr>
         | (written, None) \<Rightarrow> \<lparr>response = Rendered written, calls = []\<rparr>)
      else
        (case ParseForm r of
           Inl err \<Rightarrow>
             \<lparr>response = http_Error ''Failed to parse submitted form.'' StatusInternalServerError,
              calls = []\<rparr>
         | Inr vals \<Rightarrow>
             (let game = zero_Game\<lparr>Name := Get vals ''name'',
                    Note := \<lparr>String = Get vals ''note'', NullString.Valid = True\<rparr>\<rparr>
              in
              case index (lookup vals ''beaten_on'') 0 of
                None \<Rightarrow> \<lparr>response = Panic, calls = []\<rparr>
              | Some v \<Rightarrow>
                  (case
                     (if length v > 0 then
                        (case time_Parse e ''2006-01-02'' v of
                           Inl err \<Rightarrow> Inl (http_Error ''Failed to parse date.'' StatusBadRequest)
                         | Inr parsed \<Rightarrow> Inr \<lparr>Time = parsed, NullTime.Valid = True\<rparr>)
                      else Inr \<lparr>Time = zero_time, NullTime.Valid = True\<rparr>)
                   of
                     Inl resp \<Rightarrow> \<lparr>response = resp, calls = []\<rparr>
                   | Inr beatenOn \<Rightarrow>
                       (let game = game\<lparr>BeatenOn := beatenOn\<rparr> in
                        case data_AddGame e game of
                          Some err \<Rightarrow>
                            \<lparr>response = http_Error ''Failed to add a game.'' StatusInternalServerError,
                             calls = [AddGame game]\<rparr>
                        | None \<Rightarrow>
                            \<lparr>response = http_Redirect ''/'' StatusTemporaryRedirect,
                             calls = [AddGame game]\<rparr>)))))"

definition quickAddHandler :: "env \<Rightarrow> request \<Rightarrow> outcome" where
  "quickAddHandler e r =
     (case ParseForm r of
        Inl err \<Rightarrow>
          \<lparr>response = http_Error ''Failed to parse submitted form.'' StatusInternalServerError,
           calls = []\<rparr>
      | Inr vals \<Rightarrow>
          (let game = zero_Game\<lparr>Name := Get vals ''name'',
                 Note := \<lparr>String = [], NullString.Valid = False\<rparr>,
                 BeatenOn := \<lparr>Time = time_Now e, NullTime.Valid = True\<rparr>\<rparr>
           in
           case data_AddGame e game of
             Some err \<Rightarrow>
               \<lparr>response = http_Error ''Failed to add a game.'' StatusInternalServerError,
                calls = [AddGame game]\<rparr>
           | None \<Rightarrow> \<lparr>response = WriteHeader StatusOK, calls = [AddGame game]\<rparr>))"

definition deleteHandler :: "env \<Rightarrow> request \<Rightarrow> outcome" where
  "deleteHandler e r =
     (case ParseForm r of
        Inl err \<Rightarrow>
          \<lparr>response = http_Error ''Failed to parse submitted form.'' StatusInternalServerError,
           calls = []\<rparr>
      | Inr vals \<Rightarrow>
          (case data_DeleteGame e (Get vals ''name'') of
             (rowsAffected, Some err) \<Rightarrow>
               \<lparr>response = http_Error ''Failed to delete a game.'' StatusInternalServerError,
                calls = [DeleteGame (Get vals ''name'')]\<rparr>
           | (rowsAffected, None) \<Rightarrow>
               if rowsAffected = 0 then
                 \<lparr>response = http_Error ''Can't find this game.'' StatusBadRequest,
                  calls = [DeleteGame (Get vals ''name'')]\<rparr>
               else
                 \<lparr>response = WriteHeader StatusOK,
                  calls = [DeleteGame (Get vals ''name'')]\<rparr>))"

definition suggestGamesHandler :: "env \<Rightarrow> request \<Rightarrow> outcome" where
  "suggestGamesHandler e r =
     (let qvals = URL_Query r in
      case qvals ''q'' of
        None \<Rightarrow> \<lparr>response = http_Error ''Query is empty.'' StatusBadRequest, calls = []\<rparr>
      | Some query \<Rightarrow>
          (let FieldList = [''id'', ''name'', ''platforms''] in
           case index query 0 of
             None \<Rightarrow> \<lparr>response = Panic, calls = []\<rparr>
           | Some q \<Rightarrow>
               (let search = Search FieldList q 10 1 [giantbomb_ResourceTypeGame e] in
                case giantbomb_Search e FieldList q 10 1 [giantbomb_ResourceTypeGame e] of
                  Inl err \<Rightarrow>
                    \<lparr>response = http_Error ''Search failed.'' StatusInternalServerError,
                     calls = [search]\<rparr>
                | Inr results \<Rightarrow>
                    (case json_Marshal e results of
                       Inl err \<Rightarrow>
                         \<lparr>response = http_Error ''Internal error.'' StatusInternalServerError,
                          calls = [search]\<rparr>
                     | Inr b \<Rightarrow> \<lparr>response = Write_JSON b, calls = [search]\<rparr>))))"

section \<open>An environment and requests for the examples\<close>

text \<open>
  The theorems below hold for every environment. The examples run the handlers in one
  fixed environment: the clock stands at 14 March 2021, storage accepts every insert and
  holds one game, Celeste, and dates are read the way \<^verbatim>\<open>time.Parse\<close> reads the layout
  \<^verbatim>\<open>2006-01-02\<close>: four digits, two digits and two digits between hyphens, nothing after
  them, the month within 1..12 and the day within the month.
\<close>

definition isDigit :: "char \<Rightarrow> bool" where
  "isDigit c = (48 \<le> (of_char c :: nat) \<and> (of_char c :: nat) \<le> 57)"

definition digit :: "char \<Rightarrow> nat" where
  "digit c = of_char c - 48"

definition isLeap :: "int \<Rightarrow> bool" where
  "isLeap y = (y mod 4 = 0 \<and> (if y mod 100 = 0 then y mod 400 = 0 else True))"

definition daysIn :: "nat \<Rightarrow> int \<Rightarrow> nat" where
  "daysIn m y =
     (if m = 2 then (if isLeap y then 29 else 28)
      else if m = 4 \<or> m = 6 \<or> m = 9 \<or> m = 11 then 30 else 31)"

definition Date :: "int \<Rightarrow> nat \<Rightarrow> nat \<Rightarrow> time" where
  "Date y m d =
     \<lparr>year = y, month = m, day = d, hour = 0, minute = 0, second = 0, nanosecond = 0\<rparr>"

definition parse_date :: "string \<Rightarrow> error + time" where
  "parse_date v =
     (if length v = 10 \<and> list_all isDigit (take 4 v) \<and> v ! 4 = CHR ''-''
         \<and> isDigit (v ! 5) \<and> isDigit (v ! 6) \<and> v ! 7 = CHR ''-''
         \<and> isDigit (v ! 8) \<and> isDigit (v ! 9)
      then
        (let y = int (digit (v ! 0) * 1000 + digit (v ! 1) * 100
                   + digit (v ! 2) * 10 + digit (v ! 3));
             m = digit (v ! 5) * 10 + digit (v ! 6);
             d = digit (v ! 8) * 10 + digit (v ! 9)
         in if m < 1 \<or> 12 < m then Inl (Error ''month out of range'')
            else if d < 1 \<or> daysIn m y < d then Inl (Error ''day out of range'')
            else Inr (Date y m d))
      else Inl (Error ''cannot parse''))"

definition example_env :: env where
  "example_env =
     \<lparr>time_Now = \<lparr>year = 2021, month = 3, day = 14, hour = 15, minute = 9, second = 26,
                   nanosecond = 535\<rparr>,
      time_Parse = (\<lambda>layout v.
        if layout = ''2006-01-02'' then parse_date v else Inl (Error ''unknown layout'')),
      data_AddGame = (\<lambda>game. None),
      data_DeleteGame = (\<lambda>name. if name = ''Celeste'' then (1, None) else (0, None)),
      giantbomb_ResourceTypeGame = ''game'',
      giantbomb_Search = (\<lambda>fieldList q limit page types. Inr [(1, q, [''PC''])]),
      json_Marshal = (\<lambda>rs. Inr (''results: '' @ concat (map (fst \<circ> snd) rs))),
      template_ParseFiles = (\<lambda>files. None),
      template_ExecuteTemplate = (\<lambda>files name. ([''the page of '' @ name], None))\<rparr>"

text \<open>The same environment with a storage backend that fails every delete.\<close>

definition broken_storage_env :: env where
  "broken_storage_env =
     example_env\<lparr>data_DeleteGame := (\<lambda>name. (0, Some (Error ''database is locked'')))\<rparr>"

text \<open>A POST request whose body parsed into the given form.\<close>

definition post :: "(string \<times> string list) list \<Rightarrow> request" where
  "post form = \<lparr>Method = ''POST'', URL_Query = Map.empty, ParseForm = Inr (map_of form)\<rparr>"

text \<open>A POST request whose body \<^verbatim>\<open>ParseForm\<close> rejects.\<close>

definition malformed_post :: request where
  "malformed_post =
     \<lparr>Method = ''POST'', URL_Query = Map.empty,
      ParseForm = Inl (Error ''invalid URL escape'')\<rparr>"

text \<open>A GET request with the given URL query and no body.\<close>

definition get :: "(string \<times> string list) list \<Rightarrow> request" where
  "get query = \<lparr>Method = ''GET'', URL_Query = map_of query, ParseForm = Inr (map_of query)\<rparr>"

section \<open>The claims\<close>

text \<open>Unfolding rules, grouped: status codes, the example environment, library values.\<close>

lemmas status_defs = StatusOK_def StatusTemporaryRedirect_def StatusBadRequest_def
  StatusInternalServerError_def

lemmas example_defs = example_env_def broken_storage_env_def post_def malformed_post_def get_def
  parse_date_def isDigit_def digit_def daysIn_def isLeap_def Date_def

lemmas library_defs = lookup_def index_def Get_def zero_Game_def zero_time_def

subsection \<open>The suggest endpoint\<close>

text \<open>
  What the handler does with the \<^verbatim>\<open>q\<close> parameter. When the key is missing from the query
  the handler answers 400 and calls nothing.
\<close>

lemma suggestGamesHandler_missing_q:
  "URL_Query r ''q'' = None \<Longrightarrow>
   suggestGamesHandler e r =
     \<lparr>response = http_Error ''Query is empty.'' StatusBadRequest, calls = []\<rparr>"
  by (simp add: suggestGamesHandler_def)

text \<open>
  When the key is present, the first value goes to the search provider, whatever it is:
  the handler tests only that the key is there (\<^verbatim>\<open>if !ok\<close>), not that the value is
  non-empty.
\<close>

lemma suggestGamesHandler_present_q:
  "URL_Query r ''q'' = Some (q # qs) \<Longrightarrow>
   calls (suggestGamesHandler e r) =
     [Search [''id'', ''name'', ''platforms''] q 10 1 [giantbomb_ResourceTypeGame e]]"
  by (simp add: suggestGamesHandler_def index_def Let_def split: sum.split)

text \<open>
  Claim C1: for every GET request to \<^verbatim>\<open>/suggest/games\<close>, a missing \<^verbatim>\<open>q\<close> and a \<^verbatim>\<open>q\<close> with an
  empty value both get a 400 and no call to the search provider. The first half holds
  (\<open>suggestGamesHandler_missing_q\<close>). The second does not: on \<^verbatim>\<open>GET /suggest/games?q=\<close> the
  query holds the key \<^verbatim>\<open>q\<close> with the one value \<^verbatim>\<open>""\<close>, the presence test passes, and the
  handler searches for the empty string and answers with the provider's results. The
  handler's own message for the rejected case is \<^verbatim>\<open>Query is empty.\<close>
\<close>

theorem suggestGamesHandler_empty_q_calls_provider:
  "suggestGamesHandler example_env (get [(''q'', [''''])]) =
     \<lparr>response = Write_JSON ''results: '',
      calls = [Search [''id'', ''name'', ''platforms''] '''' 10 1 [''game'']]\<rparr>"
  by (simp add: suggestGamesHandler_def example_defs library_defs)

subsection \<open>Quick-add\<close>

text \<open>
  Claim C2: for every POST request to \<^verbatim>\<open>/games/quick-add\<close> whose form parses, the game
  passed to storage has its note absent and its beaten-on date present, holding the
  server's clock reading of that request. Exactly one game is passed.
\<close>

theorem quickAddHandler_note_absent_beatenOn_now:
  assumes "ParseForm r = Inr vals"
  shows "\<exists>game. calls (quickAddHandler e r) = [AddGame game]
           \<and> \<not> NullString.Valid (Note game)
           \<and> NullTime.Valid (BeatenOn game)
           \<and> Time (BeatenOn game) = time_Now e"
  using assms by (simp add: quickAddHandler_def Let_def split: option.split)

text \<open>Submitting \<^verbatim>\<open>name=Celeste\<close> on 14 March 2021.\<close>

theorem quickAddHandler_note_absent_beatenOn_now_witness:
  "ParseForm (post [(''name'', [''Celeste''])]) = Inr (map_of [(''name'', [''Celeste''])])
   \<and> (\<exists>game. calls (quickAddHandler example_env (post [(''name'', [''Celeste''])])) = [AddGame game]
           \<and> \<not> NullString.Valid (Note game)
           \<and> NullTime.Valid (BeatenOn game)
           \<and> Time (BeatenOn game) = time_Now example_env)"
proof -
  have h: "ParseForm (post [(''name'', [''Celeste''])]) = Inr (map_of [(''name'', [''Celeste''])])"
    by (simp add: post_def)
  from h quickAddHandler_note_absent_beatenOn_now [OF h, of example_env] show ?thesis
    by (rule conjI)
qed

subsection \<open>Full add\<close>



text \<open>
  Claim C4: for every POST request to \<^verbatim>\<open>/games/add\<close> whose \<^verbatim>\<open>beaten_on\<close> value is a
  non-empty string, the value is parsed with the layout \<^verbatim>\<open>2006-01-02\<close> (year, month, day).
  When parsing fails the response is the 400 error \<^verbatim>\<open>Failed to parse date.\<close> and storage
  is not called; when it succeeds, the one game passed to storage has its beaten-on date
  present, holding the parsed date.
\<close>

theorem addHandler_beaten_on_parsed:
  assumes "Method r = ''POST''" and "ParseForm r = Inr vals"
    and "vals ''beaten_on'' = Some (v # vs)" and "v \<noteq> []"
  shows "case time_Parse e ''2006-01-02'' v of
           Inl err \<Rightarrow>
             addHandler e r =
               \<lparr>response = http_Error ''Failed to parse date.'' StatusBadRequest, calls = []\<rparr>
         | Inr parsed \<Rightarrow>
             (\<exists>game. calls (addHandler e r) = [AddGame game]
                \<and> BeatenOn game = \<lparr>Time = parsed, NullTime.Valid = True\<rparr>)"
  using assms
  by (simp add: addHandler_def Let_def lookup_def index_def split: sum.split option.split)

text \<open>Submitting \<^verbatim>\<open>beaten_on=not-a-date\<close>, and submitting \<^verbatim>\<open>beaten_on=2020-12-10\<close>.\<close>

theorem addHandler_beaten_on_parsed_witness:
  "addHandler example_env (post [(''name'', [''Hades'']), (''beaten_on'', [''not-a-date''])]) =
     \<lparr>response = http_Error ''Failed to parse date.'' 400, calls = []\<rparr>
   \<and> (\<exists>game. calls (addHandler example_env
                  (post [(''name'', [''Hades'']), (''beaten_on'', [''2020-12-10''])])) = [AddGame game]
         \<and> BeatenOn game = \<lparr>Time = Date 2020 12 10, NullTime.Valid = True\<rparr>)"
proof -
  have bad: "time_Parse example_env ''2006-01-02'' ''not-a-date'' = Inl (Error ''cannot parse'')"
    by (simp add: example_defs)
  have good: "time_Parse example_env ''2006-01-02'' ''2020-12-10'' = Inr (Date 2020 12 10)"
    by (simp add: example_defs)
  have "addHandler example_env (post [(''name'', [''Hades'']), (''beaten_on'', [''not-a-date''])]) =
     \<lparr>response = http_Error ''Failed to parse date.'' 400, calls = []\<rparr>"
    using addHandler_beaten_on_parsed
      [of "post [(''name'', [''Hades'']), (''beaten_on'', [''not-a-date''])]"
          "map_of [(''name'', [''Hades'']), (''beaten_on'', [''not-a-date''])]"
          "''not-a-date''" "[]" example_env]
    by (simp add: post_def bad StatusBadRequest_def)
  moreover have "\<exists>game. calls (addHandler example_env
                  (post [(''name'', [''Hades'']), (''beaten_on'', [''2020-12-10''])])) = [AddGame game]
         \<and> BeatenOn game = \<lparr>Time = Date 2020 12 10, NullTime.Valid = True\<rparr>"
    using addHandler_beaten_on_parsed
      [of "post [(''name'', [''Hades'']), (''beaten_on'', [''2020-12-10''])]"
          "map_of [(''name'', [''Hades'']), (''beaten_on'', [''2020-12-10''])]"
          "''2020-12-10''" "[]" example_env]
    by (simp add: post_def good)
  ultimately show ?thesis by (rule conjI)
qed

text \<open>
  Claim C5: for every POST request to \<^verbatim>\<open>/games/add\<close> whose \<^verbatim>\<open>beaten_on\<close> value is the empty
  string, the game passed to storage has its beaten-on date present, holding the zero
  time: it is not marked absent.
\<close>

theorem addHandler_empty_beaten_on_zero_date:
  assumes "Method r = ''POST''" and "ParseForm r = Inr vals"
    and "vals ''beaten_on'' = Some ([] # vs)"
  shows "\<exists>game. calls (addHandler e r) = [AddGame game]
           \<and> BeatenOn game = \<lparr>Time = zero_time, NullTime.Valid = True\<rparr>"
  using assms
  by (simp add: addHandler_def Let_def lookup_def index_def split: option.split)

text \<open>Submitting \<^verbatim>\<open>name=Hades\<close> and an empty \<^verbatim>\<open>beaten_on\<close>.\<close>

theorem addHandler_empty_beaten_on_zero_date_witness:
  "Method (post [(''name'', [''Hades'']), (''beaten_on'', [''''])]) = ''POST''
   \<and> ParseForm (post [(''name'', [''Hades'']), (''beaten_on'', [''''])])
       = Inr (map_of [(''name'', [''Hades'']), (''beaten_on'', [''''])])
   \<and> map_of [(''name'', [''Hades'']), (''beaten_on'', [''''])] ''beaten_on'' = Some ([] # [])
   \<and> (\<exists>game. calls (addHandler example_env
                  (post [(''name'', [''Hades'']), (''beaten_on'', [''''])])) = [AddGame game]
         \<and> BeatenOn game = \<lparr>Time = zero_time, NullTime.Valid = True\<rparr>)"
proof -
  let ?r = "post [(''name'', [''Hades'']), (''beaten_on'', [''''])]"
  have m: "Method ?r = ''POST''"
    by (simp add: post_def)
  have p: "ParseForm ?r = Inr (map_of [(''name'', [''Hades'']), (''beaten_on'', [''''])])"
    by (simp add: post_def)
  have b: "map_of [(''name'', [''Hades'']), (''beaten_on'', [''''])] ''beaten_on'' = Some ([] # [])"
    by simp
  from addHandler_empty_beaten_on_zero_date [OF m p b, of example_env] m p b show ?thesis
    by blast
qed

subsection \<open>Full add without a date field\<close>

text \<open>
  Claim C9: a POST request to \<^verbatim>\<open>/games/add\<close> whose form parses and has no \<^verbatim>\<open>beaten_on\<close> key
  makes the handler index an empty slice: it panics, sends no response and calls no
  storage operation. When a \<^verbatim>\<open>beaten_on\<close> value was submitted, empty or not, the handler
  does not panic.
\<close>

theorem addHandler_panics_without_beaten_on:
  assumes "Method r = ''POST''" and "ParseForm r = Inr vals"
  shows "(vals ''beaten_on'' = None \<or> vals ''beaten_on'' = Some [] \<longrightarrow>
            addHandler e r = \<lparr>response = Panic, calls = []\<rparr>)
         \<and> (\<forall>v vs. vals ''beaten_on'' = Some (v # vs) \<longrightarrow> response (addHandler e r) \<noteq> Panic)"
  using assms
  by (auto simp: addHandler_def Let_def lookup_def index_def split: option.splits sum.splits)

text \<open>Submitting \<^verbatim>\<open>name=Hades\<close> alone panics; with an empty \<^verbatim>\<open>beaten_on\<close> it does not.\<close>

theorem addHandler_panics_without_beaten_on_witness:
  "Method (post [(''name'', [''Hades''])]) = ''POST''
   \<and> ParseForm (post [(''name'', [''Hades''])]) = Inr (map_of [(''name'', [''Hades''])])
   \<and> map_of [(''name'', [''Hades''])] ''beaten_on'' = None
   \<and> addHandler example_env (post [(''name'', [''Hades''])]) = \<lparr>response = Panic, calls = []\<rparr>
   \<and> map_of [(''name'', [''Hades'']), (''beaten_on'', [''''])] ''beaten_on'' = Some ['''']
   \<and> response (addHandler example_env (post [(''name'', [''Hades'']), (''beaten_on'', [''''])]))
        \<noteq> Panic"
proof -
  let ?r = "post [(''name'', [''Hades''])]"
  let ?r' = "post [(''name'', [''Hades'']), (''beaten_on'', [''''])]"
  have m: "Method ?r = ''POST''" and m': "Method ?r' = ''POST''"
    by (simp_all add: post_def)
  have p: "ParseForm ?r = Inr (map_of [(''name'', [''Hades''])])"
    by (simp add: post_def)
  have p': "ParseForm ?r' = Inr (map_of [(''name'', [''Hades'']), (''beaten_on'', [''''])])"
    by (simp add: post_def)
  from addHandler_panics_without_beaten_on [OF m p, of example_env]
    addHandler_panics_without_beaten_on [OF m' p', of example_env] m p
  show ?thesis
    by simp
qed

subsection \<open>The response of a successful full add\<close>

text \<open>
  A POST request to \<^verbatim>\<open>/games/add\<close> whose form parses reaches storage exactly when a
  \<^verbatim>\<open>beaten_on\<close> value was submitted that is empty or parses as a date.
\<close>

lemma addHandler_inserts_iff:
  assumes "Method r = ''POST''" and "ParseForm r = Inr vals"
  shows "(calls (addHandler e r) \<noteq> []) =
           (\<exists>v vs. vals ''beaten_on'' = Some (v # vs)
              \<and> (v = [] \<or> (\<exists>parsed. time_Parse e ''2006-01-02'' v = Inr parsed)))"
proof (cases "vals ''beaten_on''")
  case None
  with assms show ?thesis
    by (simp add: addHandler_def Let_def lookup_def index_def)
next
  case (Some xs)
  show ?thesis
  proof (cases xs)
    case Nil
    with Some assms show ?thesis
      by (simp add: addHandler_def Let_def lookup_def index_def)
  next
    case (Cons v vs)
    with Some assms show ?thesis
      by (cases "time_Parse e ''2006-01-02'' v")
         (simp_all add: addHandler_def Let_def lookup_def index_def split: option.split)
  qed
qed

text \<open>
  Claim C10: for every POST request to \<^verbatim>\<open>/games/add\<close> whose form parses and whose insert
  succeeds, the response is a redirect to \<^verbatim>\<open>/\<close> with status 307 (temporary redirect). The
  request reaches the insert when its first \<^verbatim>\<open>beaten_on\<close> value \<open>v\<close> is empty (the date \<open>t\<close>
  is then the zero time) or parses (to the date \<open>t\<close>); the insert succeeds when storage
  accepts the game made of the submitted name, the submitted note and that date. Then
  the handler makes that one insert and answers with the redirect.
\<close>

theorem addHandler_success_redirects:
  assumes "Method r = ''POST''" and "ParseForm r = Inr vals"
    and "vals ''beaten_on'' = Some (v # vs)"
    and "if v = [] then t = zero_time else time_Parse e ''2006-01-02'' v = Inr t"
    and "game = \<lparr>ID = 0, Name = Get vals ''name'',
                  Note = \<lparr>String = Get vals ''note'', NullString.Valid = True\<rparr>,
                  BeatenOn = \<lparr>Time = t, NullTime.Valid = True\<rparr>\<rparr>"
    and "data_AddGame e game = None"
  shows "addHandler e r =
           \<lparr>response = http_Redirect ''/'' StatusTemporaryRedirect, calls = [AddGame game]\<rparr>
         \<and> status_code (response (addHandler e r)) = Some 307"
proof (cases "v = []")
  case True
  with assms show ?thesis
    by (simp add: addHandler_def Let_def lookup_def index_def zero_Game_def status_defs)
next
  case False
  with assms show ?thesis
    by (simp add: addHandler_def Let_def lookup_def index_def zero_Game_def status_defs)
qed

text \<open>
  Submitting Hades with a note and the date 2020-12-10, and submitting Hades with an
  empty date.
\<close>

theorem addHandler_success_redirects_witness:
  "addHandler example_env
     (post [(''name'', [''Hades'']), (''note'', [''great'']), (''beaten_on'', [''2020-12-10''])])
     = \<lparr>response = http_Redirect ''/'' 307,
        calls = [AddGame \<lparr>ID = 0, Name = ''Hades'',
                   Note = \<lparr>String = ''great'', NullString.Valid = True\<rparr>,
                   BeatenOn = \<lparr>Time = Date 2020 12 10, NullTime.Valid = True\<rparr>\<rparr>]\<rparr>
   \<and> addHandler example_env (post [(''name'', [''Hades'']), (''beaten_on'', [''''])])
     = \<lparr>response = http_Redirect ''/'' 307,
        calls = [AddGame \<lparr>ID = 0, Name = ''Hades'',
                   Note = \<lparr>String = '''', NullString.Valid = True\<rparr>,
                   BeatenOn = \<lparr>Time = zero_time, NullTime.Valid = True\<rparr>\<rparr>]\<rparr>"
proof -
  let ?form = "[(''name'', [''Hades'']), (''note'', [''great'']), (''beaten_on'', [''2020-12-10''])]"
  let ?form' = "[(''name'', [''Hades'']), (''beaten_on'', [''''])]"
  have parsed: "time_Parse example_env ''2006-01-02'' ''2020-12-10'' = Inr (Date 2020 12 10)"
    by (simp add: example_defs)
  have accepts: "data_AddGame example_env game = None" for game
    by (simp add: example_env_def)
  have "addHandler example_env (post ?form)
     = \<lparr>response = http_Redirect ''/'' 307,
        calls = [AddGame \<lparr>ID = 0, Name = ''Hades'',
                   Note = \<lparr>String = ''great'', NullString.Valid = True\<rparr>,
                   BeatenOn = \<lparr>Time = Date 2020 12 10, NullTime.Valid = True\<rparr>\<rparr>]\<rparr>"
    using addHandler_success_redirects
      [of "post ?form" "map_of ?form" "''2020-12-10''" "[]" "Date 2020 12 10" example_env
          "\<lparr>ID = 0, Name = ''Hades'', Note = \<lparr>String = ''great'', NullString.Valid = True\<rparr>,
            BeatenOn = \<lparr>Time = Date 2020 12 10, NullTime.Valid = True\<rparr>\<rparr>"]
    by (simp add: post_def parsed accepts library_defs status_defs)
  moreover have "addHandler example_env (post ?form')
     = \<lparr>response = http_Redirect ''/'' 307,
        calls = [AddGame \<lparr>ID = 0, Name = ''Hades'',
                   Note = \<lparr>String = '''', NullString.Valid = True\<rparr>,
                   BeatenOn = \<lparr>Time = zero_time, NullTime.Valid = True\<rparr>\<rparr>]\<rparr>"
    using addHandler_success_redirects
      [of "post ?form'" "map_of ?form'" "''''" "[]" zero_time example_env
          "\<lparr>ID = 0, Name = ''Hades'', Note = \<lparr>String = '''', NullString.Valid = True\<rparr>,
            BeatenOn = \<lparr>Time = zero_time, NullTime.Valid = True\<rparr>\<rparr>"]
    by (simp add: post_def accepts lookup_def Get_def status_defs)
  ultimately show ?thesis by (rule conjI)
qed

subsection \<open>Delete\<close>

text \<open>
  Claim C6: for every POST request to \<^verbatim>\<open>/games/delete\<close> whose form parses, when
  \<^verbatim>\<open>data.DeleteGame\<close> reports zero affected rows and no error the response is a 400, and
  when it reports an error the response is a 500. The error is tested first, as in the
  source, so the row count next to an error plays no part.
\<close>

theorem deleteHandler_not_found_is_bad_request:
  assumes "ParseForm r = Inr vals"
  shows "(data_DeleteGame e (Get vals ''name'') = (0, None) \<longrightarrow>
            response (deleteHandler e r) = http_Error ''Can't find this game.'' StatusBadRequest
            \<and> status_code (response (deleteHandler e r)) = Some 400)
         \<and> (\<forall>rowsAffected err. data_DeleteGame e (Get vals ''name'') = (rowsAffected, Some err) \<longrightarrow>
            response (deleteHandler e r) =
              http_Error ''Failed to delete a game.'' StatusInternalServerError
            \<and> status_code (response (deleteHandler e r)) = Some 500)"
  using assms by (simp add: deleteHandler_def status_defs)

text \<open>
  Deleting Hades, which storage does not hold; and the same request against a storage
  backend that fails.
\<close>

theorem deleteHandler_not_found_is_bad_request_witness:
  "data_DeleteGame example_env (Get (map_of [(''name'', [''Hades''])]) ''name'') = (0, None)
   \<and> response (deleteHandler example_env (post [(''name'', [''Hades''])])) =
       http_Error ''Can't find this game.'' 400
   \<and> data_DeleteGame broken_storage_env (Get (map_of [(''name'', [''Hades''])]) ''name'')
       = (0, Some (Error ''database is locked''))
   \<and> response (deleteHandler broken_storage_env (post [(''name'', [''Hades''])])) =
       http_Error ''Failed to delete a game.'' 500"
proof -
  let ?r = "post [(''name'', [''Hades''])]"
  let ?vals = "map_of [(''name'', [''Hades''])]"
  have p: "ParseForm ?r = Inr ?vals"
    by (simp add: post_def)
  have none: "data_DeleteGame example_env (Get ?vals ''name'') = (0, None)"
    by (simp add: example_defs library_defs)
  have broken: "data_DeleteGame broken_storage_env (Get ?vals ''name'')
      = (0, Some (Error ''database is locked''))"
    by (simp add: example_defs library_defs)
  from deleteHandler_not_found_is_bad_request [OF p, of example_env]
    deleteHandler_not_found_is_bad_request [OF p, of broken_storage_env] none broken
  show ?thesis
    by (simp add: status_defs)
qed

subsection \<open>The name of a stored game\<close>




subsection \<open>Malformed form bodies\<close>

text \<open>
  Claim C8, as amended: for every POST request to \<^verbatim>\<open>/games/add\<close>, \<^verbatim>\<open>/games/quick-add\<close> or
  \<^verbatim>\<open>/games/delete\<close> whose body \<^verbatim>\<open>ParseForm\<close> rejects, the handler answers with the error
  \<^verbatim>\<open>Failed to parse submitted form.\<close> under status 500 (internal server error), reads no
  field and calls no storage operation.
\<close>

theorem malformed_form_fails_before_extraction:
  assumes "ParseForm r = Inl err"
  shows "(Method r = ''POST'' \<longrightarrow>
            addHandler e r =
              \<lparr>response = http_Error ''Failed to parse submitted form.'' StatusInternalServerError,
               calls = []\<rparr>)
         \<and> quickAddHandler e r =
              \<lparr>response = http_Error ''Failed to parse submitted form.'' StatusInternalServerError,
               calls = []\<rparr>
         \<and> deleteHandler e r =
              \<lparr>response = http_Error ''Failed to parse submitted form.'' StatusInternalServerError,
               calls = []\<rparr>"
  using assms by (simp add: addHandler_def quickAddHandler_def deleteHandler_def)

text \<open>A body with an invalid URL escape, sent to each of the three handlers.\<close>

theorem malformed_form_fails_before_extraction_witness:
  "ParseForm malformed_post = Inl (Error ''invalid URL escape'')
   \<and> Method malformed_post = ''POST''
   \<and> addHandler example_env malformed_post =
        \<lparr>response = http_Error ''Failed to parse submitted form.'' 500, calls = []\<rparr>
   \<and> quickAddHandler example_env malformed_post =
        \<lparr>response = http_Error ''Failed to parse submitted form.'' 500, calls = []\<rparr>
   \<and> deleteHandler example_env malformed_post =
        \<lparr>response = http_Error ''Failed to parse submitted form.'' 500, calls = []\<rparr>"
proof -
  have p: "ParseForm malformed_post = Inl (Error ''invalid URL escape'')"
    by (simp add: malformed_post_def)
  have m: "Method malformed_post = ''POST''"
    by (simp add: malformed_post_def)
  from malformed_form_fails_before_extraction [OF p, of example_env] p m show ?thesis
    by (simp add: status_defs)
qed

text \<open>
  The claim as it stands says that the failure is of the bad-request class. The status
  the three handlers send is 500, not 400.
\<close>

theorem malformed_form_is_server_error_counterexample:
  "ParseForm malformed_post = Inl (Error ''invalid URL escape'')
   \<and> status_code (response (addHandler example_env malformed_post)) = Some 500
   \<and> status_code (response (quickAddHandler example_env malformed_post)) = Some 500
   \<and> status_code (response (deleteHandler example_env malformed_post)) = Some 500
   \<and> status_code (response (addHandler example_env malformed_post)) \<noteq> Some StatusBadRequest"
  by (simp add: addHandler_def quickAddHandler_def deleteHandler_def malformed_post_def status_defs)

end
